theory Spec2Isabelle
  imports Complex_Main
begin

section \<open>Strings as Python sees them\<close>

text \<open>
  This theory embeds the clause segmentation of \<open>services/segmentation_service.py\<close>
  and the rule-based risk scoring of \<open>services/risk_service.py\<close>, as they are
  chained by \<open>upload_document\<close> in \<open>main_full.py\<close>.

  Clause and document texts are Python \<open>str\<close> values. They are modelled as
  \<open>string\<close>, one \<open>char\<close> per code point, over the ASCII range: the character
  predicates below are the ASCII part of \<open>str.isspace\<close>, \<open>str.lower\<close> and of the
  classes \<open>\s\<close>, \<open>\d\<close>, \<open>\w\<close> of the \<open>re\<close> module. Python floats are modelled
  as \<open>real\<close>, that is with exact arithmetic.
\<close>

definition upper_letters :: string where
  "upper_letters = ''ABCDEFGHIJKLMNOPQRSTUVWXYZ''"

definition lower_letters :: string where
  "lower_letters = ''abcdefghijklmnopqrstuvwxyz''"

definition digits :: string where
  "digits = ''0123456789''"

definition newline :: char where
  "newline = CHR 0x0A"

definition whitespace :: string where
  \<comment> \<open>tab, line feed, vertical tab, form feed, carriage return, the four separators
      FS GS RS US, and the space\<close>
  "whitespace = [CHR 0x09, CHR 0x0A, CHR 0x0B, CHR 0x0C, CHR 0x0D,
                 CHR 0x1C, CHR 0x1D, CHR 0x1E, CHR 0x1F, CHR 0x20]"

definition isspace :: "char \<Rightarrow> bool" where
  "isspace c = (c \<in> set whitespace)"

definition isdigit :: "char \<Rightarrow> bool" where
  "isdigit c = (c \<in> set digits)"

definition is_word :: "char \<Rightarrow> bool" where
  \<comment> \<open>the class \<open>\w\<close>\<close>
  "is_word c = (c \<in> set (lower_letters @ upper_letters @ digits @ ''_''))"

definition lower_char :: "char \<Rightarrow> char" where
  "lower_char c = (case map_of (zip upper_letters lower_letters) c of
                     Some d \<Rightarrow> d | None \<Rightarrow> c)"

definition upper_char :: "char \<Rightarrow> char" where
  "upper_char c = (case map_of (zip lower_letters upper_letters) c of
                     Some d \<Rightarrow> d | None \<Rightarrow> c)"

definition lower :: "string \<Rightarrow> string" where
  \<comment> \<open>\<open>str.lower()\<close>\<close>
  "lower s = map lower_char s"

definition lstrip :: "string \<Rightarrow> string" where
  "lstrip s = dropWhile isspace s"

definition rstrip :: "string \<Rightarrow> string" where
  "rstrip s = rev (dropWhile isspace (rev s))"

definition strip :: "string \<Rightarrow> string" where
  \<comment> \<open>\<open>str.strip()\<close>\<close>
  "strip s = rstrip (lstrip s)"

fun split_words :: "string \<Rightarrow> string \<Rightarrow> string list" where
  \<comment> \<open>\<open>str.split()\<close> without argument: the maximal runs of non-whitespace; the first
      argument is the word being read, reversed\<close>
  "split_words w [] = (if w = [] then [] else [rev w])"
| "split_words w (c # s) =
     (if isspace c then (if w = [] then split_words [] s else rev w # split_words [] s)
      else split_words (c # w) s)"

definition split :: "string \<Rightarrow> string list" where
  "split s = split_words [] s"

fun startswith :: "string \<Rightarrow> string \<Rightarrow> bool" where
  \<comment> \<open>\<open>s.startswith(w)\<close>, the text first\<close>
  "startswith s [] = True"
| "startswith [] (a # w) = False"
| "startswith (c # s) (a # w) = (c = a \<and> startswith s w)"

fun contains :: "string \<Rightarrow> string \<Rightarrow> bool" where
  \<comment> \<open>\<open>w in s\<close>: \<open>w\<close> occurs in \<open>s\<close> as a substring\<close>
  "contains [] w = (w = [])"
| "contains (c # s) w = (startswith (c # s) w \<or> contains s w)"

fun find_from :: "int \<Rightarrow> string \<Rightarrow> string \<Rightarrow> int" where
  "find_from i [] w = (if w = [] then i else - 1)"
| "find_from i (c # s) w = (if startswith (c # s) w then i else find_from (i + 1) s w)"

definition str_find :: "string \<Rightarrow> string \<Rightarrow> int" where
  \<comment> \<open>\<open>s.find(w)\<close>: the index of the first occurrence, \<open>-1\<close> when there is none\<close>
  "str_find s w = find_from 0 s w"

definition len :: "'a list \<Rightarrow> int" where
  "len xs = int (length xs)"

section \<open>The regular expressions of the pattern tables\<close>

text \<open>
  The patterns of both services use literals, the classes \<open>\s\<close>, \<open>\d\<close> and
  bracket sets, the greedy quantifiers \<open>*\<close>, \<open>+\<close> (on a class only) and
  \<open>?\<close>, non-capturing groups with alternatives, \<open>\b\<close> and \<open>^\<close> (always under
  \<open>re.MULTILINE\<close>). A pattern is a term of \<open>regex\<close>; matching is the backtracking
  search of \<open>re\<close>: \<open>ends\<close> lists the positions where a match starting at the
  cursor can end, in the order in which backtracking finds them, so that the head of the
  list is the match \<open>re\<close> reports. A cursor is the character before the position
  (\<open>None\<close> at the start of the text) and the text from the position on. The flag
  says whether \<open>re.IGNORECASE\<close> is set.
\<close>

datatype cclass = Whitespace | Digit | OneOf string

datatype regex =
    Lit string
  | Cls cclass
  | Star cclass
  | Plus cclass
  | Opt regex
  | Seq regex regex
  | Alt regex regex
  | WordB
  | LineStart

type_synonym cursor = "char option \<times> string"

definition in_class :: "bool \<Rightarrow> cclass \<Rightarrow> char \<Rightarrow> bool" where
  "in_class ic cl c =
     (case cl of
        Whitespace \<Rightarrow> isspace c
      | Digit \<Rightarrow> isdigit c
      | OneOf cs \<Rightarrow> c \<in> set cs \<or> (ic \<and> (lower_char c \<in> set cs \<or> upper_char c \<in> set cs)))"

definition same_char :: "bool \<Rightarrow> char \<Rightarrow> char \<Rightarrow> bool" where
  "same_char ic a c = (a = c \<or> (ic \<and> lower_char a = lower_char c))"

fun lit_at :: "bool \<Rightarrow> string \<Rightarrow> cursor \<Rightarrow> cursor list" where
  "lit_at ic [] cur = [cur]"
| "lit_at ic (a # w) (p, []) = []"
| "lit_at ic (a # w) (p, c # s) = (if same_char ic a c then lit_at ic w (Some c, s) else [])"

fun star_at :: "bool \<Rightarrow> cclass \<Rightarrow> char option \<Rightarrow> string \<Rightarrow> cursor list" where
  "star_at ic cl p [] = [(p, [])]"
| "star_at ic cl p (c # s) =
     (if in_class ic cl c then star_at ic cl (Some c) s else []) @ [(p, c # s)]"

definition word_boundary :: "cursor \<Rightarrow> bool" where
  \<comment> \<open>\<open>\b\<close>: exactly one of the two neighbours is a word character\<close>
  "word_boundary cur =
     ((case fst cur of None \<Rightarrow> False | Some c \<Rightarrow> is_word c)
      \<noteq> (case snd cur of [] \<Rightarrow> False | c # _ \<Rightarrow> is_word c))"

definition line_start :: "cursor \<Rightarrow> bool" where
  \<comment> \<open>\<open>^\<close> under \<open>re.MULTILINE\<close>\<close>
  "line_start cur = (case fst cur of None \<Rightarrow> True | Some c \<Rightarrow> c = newline)"

fun ends :: "bool \<Rightarrow> regex \<Rightarrow> cursor \<Rightarrow> cursor list" where
  "ends ic (Lit w) cur = lit_at ic w cur"
| "ends ic (Cls cl) cur =
     (case snd cur of [] \<Rightarrow> []
      | c # s \<Rightarrow> if in_class ic cl c then [(Some c, s)] else [])"
| "ends ic (Star cl) cur = star_at ic cl (fst cur) (snd cur)"
| "ends ic (Plus cl) cur =
     (case snd cur of [] \<Rightarrow> []
      | c # s \<Rightarrow> if in_class ic cl c then star_at ic cl (Some c) s else [])"
| "ends ic (Opt r) cur = ends ic r cur @ [cur]"
| "ends ic (Seq r1 r2) cur = concat (map (ends ic r2) (ends ic r1 cur))"
| "ends ic (Alt r1 r2) cur = ends ic r1 cur @ ends ic r2 cur"
| "ends ic WordB cur = (if word_boundary cur then [cur] else [])"
| "ends ic LineStart cur = (if line_start cur then [cur] else [])"

definition re_match :: "bool \<Rightarrow> regex \<Rightarrow> string \<Rightarrow> bool" where
  \<comment> \<open>\<open>pattern.match(s)\<close> is not \<open>None\<close>: a match at the start of the text\<close>
  "re_match ic r s = (ends ic r (None, s) \<noteq> [])"

fun search_from :: "bool \<Rightarrow> regex \<Rightarrow> char option \<Rightarrow> string \<Rightarrow> bool" where
  "search_from ic r p [] = (ends ic r (p, []) \<noteq> [])"
| "search_from ic r p (c # s) = (ends ic r (p, c # s) \<noteq> [] \<or> search_from ic r (Some c) s)"

definition re_search :: "bool \<Rightarrow> regex \<Rightarrow> string \<Rightarrow> bool" where
  \<comment> \<open>\<open>re.search(pattern, s)\<close> is not \<open>None\<close>: a match at some position\<close>
  "re_search ic r s = search_from ic r None s"

definition consumed :: "string \<Rightarrow> cursor list \<Rightarrow> nat list" where
  \<comment> \<open>the lengths of the matches that start at the text \<open>s\<close>\<close>
  "consumed s cs = map (\<lambda>cur. length s - length (snd cur)) cs"

fun count_from :: "bool \<Rightarrow> regex \<Rightarrow> nat \<Rightarrow> char option \<Rightarrow> string \<Rightarrow> nat" where
  \<comment> \<open>the scan of \<open>findall\<close>: \<open>skip\<close> characters still belong to the last match; an
      empty match is counted and the same position tried again for a non-empty one\<close>
  "count_from ic r skip p [] =
     (if skip = 0 \<and> ends ic r (p, []) \<noteq> [] then 1 else 0)"
| "count_from ic r skip p (c # s) =
     (case skip of
        Suc k \<Rightarrow> count_from ic r k (Some c) s
      | 0 \<Rightarrow>
         (case consumed (c # s) (ends ic r (p, c # s)) of
            [] \<Rightarrow> count_from ic r 0 (Some c) s
          | Suc k # _ \<Rightarrow> 1 + count_from ic r k (Some c) s
          | 0 # ls \<Rightarrow>
              (case filter (\<lambda>l. l \<noteq> 0) ls of
                 [] \<Rightarrow> 1 + count_from ic r 0 (Some c) s
               | l # _ \<Rightarrow> 2 + count_from ic r (l - 1) (Some c) s)))"

definition findall_count :: "bool \<Rightarrow> regex \<Rightarrow> string \<Rightarrow> nat" where
  \<comment> \<open>\<open>len(pattern.findall(s))\<close>: the non-overlapping matches, from left to right\<close>
  "findall_count ic r s = count_from ic r 0 None s"

fun split_runs :: "(char \<Rightarrow> bool) \<Rightarrow> bool \<Rightarrow> string \<Rightarrow> string \<Rightarrow> string list" where
  \<comment> \<open>\<open>re.split\<close> on a pattern \<open>[...]+\<close>: the text between the maximal runs of
      delimiters, empty pieces included; the flag says that the scan is inside a run,
      the second string is the piece being read, reversed\<close>
  "split_runs d inrun w [] = [rev w]"
| "split_runs d inrun w (c # s) =
     (if d c then (if inrun then split_runs d True w s else rev w # split_runs d True [] s)
      else split_runs d False (c # w) s)"

definition seqs :: "regex list \<Rightarrow> regex" where
  \<comment> \<open>the concatenation of the parts of a pattern\<close>
  "seqs rs = foldr Seq rs (Lit [])"

fun alt :: "regex list \<Rightarrow> regex" where
  \<comment> \<open>a group \<open>(?:r1|r2|...)\<close>\<close>
  "alt [] = Cls (OneOf [])"
| "alt [r] = r"
| "alt (r # rs) = Alt r (alt rs)"

definition words :: "string list \<Rightarrow> regex" where
  \<comment> \<open>a group of literal alternatives\<close>
  "words ws = alt (map Lit ws)"

definition plural :: "string \<Rightarrow> regex" where
  \<comment> \<open>\<open>ws?\<close>: the literal with an optional final \<open>s\<close>\<close>
  "plural w = Seq (Lit w) (Opt (Lit ''s''))"

abbreviation sp1 :: regex where
  \<comment> \<open>\<open>\s+\<close>\<close>
  "sp1 \<equiv> Plus Whitespace"

abbreviation sp0 :: regex where
  \<comment> \<open>\<open>\s*\<close>\<close>
  "sp0 \<equiv> Star Whitespace"

section \<open>The segmentation service\<close>

definition type_patterns :: "(string \<times> regex list) list" where
  \<comment> \<open>the dictionary of \<open>_classify_clause_type\<close>, in its insertion order\<close>
  "type_patterns =
    [(''definition'',
        [seqs [WordB, alt [plural ''mean'', Lit ''shall mean'', Lit ''refers to'',
                           Lit ''is defined as''], WordB],
         seqs [WordB, alt [seqs [Lit ''for the purpose'', Opt (Lit ''s''), Lit '' of''],
                           Lit ''in this agreement''], WordB]]),
     (''obligation'',
        [seqs [WordB, words [''shall'', ''must'', ''will'', ''agree to'', ''undertake to''], WordB],
         seqs [WordB, words [''responsible for'', ''liable for'', ''bound to''], WordB]]),
     (''prohibition'',
        [seqs [WordB, words [''shall not'', ''must not'', ''will not'', ''cannot'', ''may not''],
               WordB],
         seqs [WordB, words [''prohibited'', ''forbidden'', ''restricted''], WordB]]),
     (''condition'',
        [seqs [WordB, words [''if'', ''unless'', ''provided that'', ''subject to''], WordB],
         seqs [WordB, words [''in the event that'', ''in case of''], WordB]]),
     (''termination'',
        [seqs [WordB, words [''terminate'', ''end'', ''expire'', ''cease''], WordB],
         seqs [WordB, words [''breach'', ''default'', ''violation''], WordB]]),
     (''liability'',
        [seqs [WordB, words [''liability'', ''damages'', ''indemnify'', ''hold harmless''], WordB],
         seqs [WordB, words [''responsible'', ''accountable'', ''liable''], WordB]]),
     (''payment'',
        [seqs [WordB, words [''payment'', ''fee'', ''cost'', ''expense'', ''charge''], WordB],
         seqs [WordB, words [''due'', ''payable'', ''remit'', ''transfer''], WordB]]),
     (''confidentiality'',
        [seqs [WordB, words [''confidential'', ''proprietary'', ''secret'', ''private''], WordB],
         seqs [WordB, words [''disclose'', ''reveal'', ''share'', ''divulge''], WordB]])]"

fun first_type :: "(string \<times> regex list) list \<Rightarrow> string \<Rightarrow> string" where
  \<comment> \<open>the loop over the groups: the first group with a pattern found in the text\<close>
  "first_type [] s = ''general''"
| "first_type ((name, ps) # rest) s =
     (if list_ex (\<lambda>r. re_search False r s) ps then name else first_type rest s)"

definition classify_clause_type :: "string \<Rightarrow> string" where
  "classify_clause_type clause_text = first_type type_patterns (lower clause_text)"

datatype pyval = PyStr string | PyInt int | PyFloat real | PyNone

type_synonym pydict = "string \<rightharpoonup> pyval"

definition py_get :: "pydict \<Rightarrow> string \<Rightarrow> pyval \<Rightarrow> pyval" where
  \<comment> \<open>\<open>d.get(key, default)\<close>\<close>
  "py_get d k dflt = (case d k of Some v \<Rightarrow> v | None \<Rightarrow> dflt)"

abbreviation bol :: regex where
  \<comment> \<open>\<open>(?:^|\n)\<close>\<close>
  "bol \<equiv> Alt LineStart (Lit [newline])"

definition clause_patterns :: "regex list" where
  "clause_patterns =
    [seqs [bol, sp0, words [''Article'', ''Section'', ''Clause'', ''Paragraph''], sp1,
           Plus Digit, Cls (OneOf ''.):''), sp0],
     seqs [bol, sp0, Plus Digit, Cls (OneOf ''.)''), sp0],
     seqs [bol, sp0, Cls (OneOf lower_letters), Lit '')'', sp0],
     seqs [bol, sp0, Lit ''('', Cls (OneOf lower_letters), Lit '')'', sp0],
     seqs [bol, sp0, Plus (OneOf ''ivx''), Lit '')'', sp0],
     seqs [bol, sp0, Lit ''('', Plus (OneOf ''ivx''), Lit '')'', sp0],
     seqs [bol, sp0, Lit ''WHEREAS'', sp1],
     seqs [bol, sp0, Lit ''NOW'', sp1, Lit ''THEREFORE'', sp1],
     seqs [bol, sp0, Lit ''IN'', sp1, Lit ''WITNESS'', sp1, Lit ''WHEREOF'', sp1],
     seqs [bol, sp0, Lit ''THEREFORE'', sp1],
     seqs [bol, sp0, Lit ''FURTHERMORE'', sp1],
     seqs [bol, sp0, Lit ''MOREOVER'', sp1],
     seqs [bol, sp0, Lit ''HOWEVER'', sp1],
     seqs [bol, sp0, Lit ''NOTWITHSTANDING'', sp1],
     seqs [bol, sp0, Lit ''SUBJECT'', sp1, Lit ''TO'', sp1],
     seqs [bol, sp0, Lit ''PROVIDED'', sp1, Lit ''THAT'', sp1],
     seqs [bol, sp0, Lit ''IN'', sp1, Lit ''THE'', sp1, Lit ''EVENT'', sp1, Lit ''THAT'', sp1],
     seqs [bol, sp0, Lit ''IN'', sp1, Lit ''CASE'', sp1, Lit ''OF'', sp1],
     seqs [bol, sp0, Lit ''IF'', sp1],
     seqs [bol, sp0, Lit ''UNLESS'', sp1],
     seqs [bol, sp0, Lit ''EXCEPT'', sp1],
     seqs [bol, sp0, Lit ''NOTWITHSTANDING'', sp1]]"

definition split_into_sentences :: "string \<Rightarrow> string list" where
  "split_into_sentences text_in =
     map strip (filter (\<lambda>s. strip s \<noteq> [])
                  (split_runs (\<lambda>c. c \<in> set ''.!?'') False [] text_in))"

definition is_clause_start :: "string \<Rightarrow> bool" where
  "is_clause_start sentence = list_ex (\<lambda>r. re_match True r sentence) clause_patterns"

definition legal_keywords :: "string list" where
  "legal_keywords =
    [''shall'', ''must'', ''will'', ''agree'', ''party'', ''contract'', ''agreement'',
     ''liability'', ''damages'', ''breach'', ''terminate'', ''confidential'',
     ''payment'', ''fee'', ''obligation'', ''right'', ''duty'', ''responsibility'']"

definition count_present :: "string list \<Rightarrow> string \<Rightarrow> nat" where
  \<comment> \<open>\<open>sum(1 for word in words if word in s)\<close>\<close>
  "count_present ws s = length (filter (\<lambda>w. contains s w) ws)"

definition calculate_confidence :: "string \<Rightarrow> real" where
  "calculate_confidence clause_text =
     (let confidence = 0.5;
          clause_lower = lower clause_text;
          keyword_count = count_present legal_keywords clause_lower;
          confidence = confidence + min 0.3 (real keyword_count * 0.05);
          confidence = (if len clause_text > 100 then confidence + 0.1
                        else if len clause_text > 50 then confidence + 0.05
                        else confidence);
          confidence = (if clause_text \<noteq> [] \<and> last clause_text \<in> set ''.!?''
                        then confidence + 0.1 else confidence)
      in min 1.0 confidence)"

definition make_clause :: "int \<Rightarrow> string \<Rightarrow> int \<Rightarrow> pydict" where
  \<comment> \<open>the dictionary appended for a finished clause\<close>
  "make_clause clause_id current_clause start_index =
     [''id'' \<mapsto> PyInt clause_id,
      ''text'' \<mapsto> PyStr (strip current_clause),
      ''type'' \<mapsto> PyStr (classify_clause_type current_clause),
      ''start_index'' \<mapsto> PyInt start_index,
      ''end_index'' \<mapsto> PyInt (start_index + len current_clause),
      ''confidence'' \<mapsto> PyFloat (calculate_confidence current_clause)]"

fun segment_loop ::
  "string \<Rightarrow> string list \<Rightarrow> pydict list \<Rightarrow> string \<Rightarrow> int \<Rightarrow> int
     \<Rightarrow> pydict list \<times> string \<times> int \<times> int" where
  \<comment> \<open>the loop over the sentences, on the variables \<open>clauses\<close>, \<open>current_clause\<close>,
      \<open>clause_id\<close> and \<open>start_index\<close>\<close>
  "segment_loop text_in [] clauses current_clause clause_id start_index =
     (clauses, current_clause, clause_id, start_index)"
| "segment_loop text_in (sentence # rest) clauses current_clause clause_id start_index =
     (if is_clause_start sentence then
        (if strip current_clause \<noteq> [] then
           segment_loop text_in rest
             (clauses @ [make_clause clause_id current_clause start_index])
             sentence (clause_id + 1) (str_find text_in sentence)
         else
           segment_loop text_in rest clauses sentence clause_id (str_find text_in sentence))
      else
        segment_loop text_in rest clauses (current_clause @ '' '' @ sentence)
          clause_id start_index)"

definition segment_text :: "string \<Rightarrow> pydict list" where
  "segment_text text_in =
     (case segment_loop text_in (split_into_sentences text_in) [] [] 1 0 of
        (clauses, current_clause, clause_id, start_index) \<Rightarrow>
          (let clauses = (if strip current_clause \<noteq> []
                          then clauses @ [make_clause clause_id current_clause start_index]
                          else clauses)
           in if clauses = [] then
                [[''id'' \<mapsto> PyInt 1, ''text'' \<mapsto> PyStr text_in, ''type'' \<mapsto> PyStr ''general'',
                  ''start_index'' \<mapsto> PyInt 0, ''end_index'' \<mapsto> PyInt (len text_in),
                  ''confidence'' \<mapsto> PyFloat 0.5]]
              else clauses))"

definition segment_clauses :: "string \<Rightarrow> pydict list" where
  \<comment> \<open>The handler of the source for an exception of \<open>_segment_text\<close> has no branch
      here: on a \<open>str\<close> no operation of \<open>_segment_text\<close> raises.\<close>
  "segment_clauses text_in = (if strip text_in = [] then [] else segment_text text_in)"

section \<open>The risk service\<close>

fun phrase :: "string list \<Rightarrow> regex" where
  \<comment> \<open>words separated by \<open>\s+\<close>\<close>
  "phrase [] = Lit []"
| "phrase [w] = Lit w"
| "phrase (w # ws) = Seq (Lit w) (Seq sp1 (phrase ws))"

definition penalty_pattern :: regex where
  "penalty_pattern =
     seqs [WordB, words [''penalty'', ''fine''], sp1,
           alt [Lit ''of'', phrase [''in'', ''the'', ''amount'', ''of'']], sp1,
           Opt (Lit ''$''), Plus Digit]"

definition risk_patterns :: "(string \<times> regex list \<times> real) list" where
  \<comment> \<open>the groups in the insertion order of the dictionary: name, patterns, weight\<close>
  "risk_patterns =
    [(''high'',
       [seqs [WordB, words [''unlimited'', ''unrestricted'', ''absolute''], sp1,
              words [''liability'', ''responsibility''], WordB],
        seqs [WordB, words [''indemnify'', ''hold harmless''], sp1, words [''against'', ''for''],
              sp1, words [''all'', ''any'', ''every''], WordB],
        seqs [WordB, alt [phrase [''without'', ''limitation''],
                          phrase [''without'', ''restriction'']], WordB],
        seqs [WordB, words [''consequential'', ''punitive'', ''special''], sp1, Lit ''damages'',
              WordB],
        seqs [WordB, words [''automatic'', ''immediate''], sp1,
              words [''termination'', ''cancellation''], WordB],
        penalty_pattern,
        seqs [WordB, words [''breach'', ''violation''], sp1, words [''shall'', ''will''], sp1,
              alt [phrase [''result'', ''in''], Lit ''constitute''], WordB],
        seqs [WordB, words [''irrevocable'', ''permanent'', ''final''], WordB],
        seqs [WordB, words [''waive'', ''waiver''], sp1, words [''all'', ''any''], sp1,
              alt [plural ''right'', plural ''claim'', plural ''defense''], WordB],
        seqs [WordB, words [''exclusive'', ''sole''], sp1, words [''remedy'', ''recourse''],
              WordB]],
       0.8),
     (''medium'',
       [seqs [WordB, words [''reasonable'', ''limited''], sp1,
              words [''liability'', ''responsibility''], WordB],
        seqs [WordB, words [''terminate'', ''end'', ''cease''], sp1,
              alt [Lit ''upon'', phrase [''in'', ''case'', ''of'']], WordB],
        seqs [WordB, words [''breach'', ''default'', ''violation''], sp1, words [''of'', ''under''],
              WordB],
        seqs [WordB, words [''notice'', ''notification''], sp1, words [''of'', ''regarding''],
              WordB],
        seqs [WordB, words [''remedy'', ''recourse''], sp1, words [''for'', ''against''], WordB],
        seqs [WordB, alt [plural ''damage'', Seq (Lit ''losse'') (Opt (Lit ''s''))], sp1,
              alt [phrase [''arising'', ''from''], phrase [''resulting'', ''from'']], WordB],
        seqs [WordB, words [''confidential'', ''proprietary''], sp1,
              words [''information'', ''data''], WordB],
        seqs [WordB, words [''payment'', ''fee''], sp1, words [''due'', ''payable''], sp1,
              words [''within'', ''by''], WordB],
        seqs [WordB, alt [phrase [''subject'', ''to''], phrase [''conditioned'', ''upon'']],
              WordB],
        seqs [WordB, alt [phrase [''provided'', ''that''], phrase [''as'', ''long'', ''as'']],
              WordB]],
       0.5),
     (''low'',
       [seqs [WordB, words [''may'', ''might'', ''could''], sp1, words [''be'', ''have'', ''include''],
              WordB],
        seqs [WordB, alt [Lit ''reasonable'', phrase [''good'', ''faith'']], sp1,
              alt [plural ''effort'', plural ''attempt''], WordB],
        seqs [WordB, alt [seqs [Lit ''best'', sp1, plural ''effort''],
                          phrase [''reasonable'', ''care'']], WordB],
        seqs [WordB, alt [phrase [''subject'', ''to'', ''availability''],
                          phrase [''as'', ''available'']], WordB],
        seqs [WordB, alt [phrase [''at'', ''the'', ''discretion'', ''of''],
                          phrase [''in'', ''the'', ''opinion'', ''of'']], WordB],
        seqs [WordB, alt [phrase [''unless'', ''otherwise'', ''specified''],
                          phrase [''except'', ''as'', ''noted'']], WordB],
        seqs [WordB, words [''generally'', ''typically'', ''usually''], WordB],
        seqs [WordB, words [''approximately'', ''about'', ''around''], WordB],
        seqs [WordB, alt [phrase [''if'', ''possible''], phrase [''when'', ''feasible'']], WordB],
        seqs [WordB, alt [phrase [''reasonable'', ''time''], phrase [''appropriate'', ''period'']],
              WordB]],
       0.2)]"

definition count_matches :: "regex list \<Rightarrow> string \<Rightarrow> nat" where
  \<comment> \<open>the inner loop: \<open>matches += len(pattern.findall(clause_lower))\<close> over the
      patterns of a group, compiled with \<open>re.IGNORECASE\<close>\<close>
  "count_matches ps clause_lower = sum_list (map (\<lambda>r. findall_count True r clause_lower) ps)"

fun risk_loop ::
  "(string \<times> regex list \<times> real) list \<Rightarrow> string \<Rightarrow> string \<Rightarrow> real \<Rightarrow> real \<Rightarrow> real \<times> real" where
  \<comment> \<open>the loop over the groups, on the variables \<open>total_score\<close> and
      \<open>total_weight\<close>\<close>
  "risk_loop [] clause_text clause_lower total_score total_weight = (total_score, total_weight)"
| "risk_loop ((risk_level, patterns, weight) # rest) clause_text clause_lower
       total_score total_weight =
     (let matches = count_matches patterns clause_lower in
      if matches > 0 then
        (let normalized_matches = real matches / real (max 1 (length (split clause_text)))
         in risk_loop rest clause_text clause_lower
              (total_score + normalized_matches * weight) (total_weight + weight))
      else risk_loop rest clause_text clause_lower total_score total_weight)"

definition negation_words :: "string list" where
  "negation_words =
     [''not'', ''no'', ''never'', ''none'', ''neither'', ''nor'', ''without'', ''unless'']"

definition uncertainty_words :: "string list" where
  "uncertainty_words =
     [''may'', ''might'', ''could'', ''possibly'', ''potentially'', ''uncertain'']"

definition time_words :: "string list" where
  "time_words = [''immediately'', ''urgent'', ''asap'', ''promptly'', ''without delay'']"

definition calculate_additional_risk_factors :: "string \<Rightarrow> real" where
  "calculate_additional_risk_factors clause_text =
     (let additional_risk = 0;
          clause_lower = lower clause_text;
          additional_risk = (if len clause_text > 200 then additional_risk + 0.1
                             else if len clause_text > 100 then additional_risk + 0.05
                             else additional_risk);
          negation_count = count_present negation_words clause_lower;
          additional_risk = additional_risk + min 0.2 (real negation_count * 0.05);
          uncertainty_count = count_present uncertainty_words clause_lower;
          additional_risk = additional_risk + min 0.15 (real uncertainty_count * 0.03);
          time_count = count_present time_words clause_lower;
          additional_risk = additional_risk + min 0.1 (real time_count * 0.05)
      in additional_risk)"

definition analyze_clause_risk :: "string \<Rightarrow> real" where
  "analyze_clause_risk clause_text =
     (if strip clause_text = [] then 0.0
      else
        (let clause_lower = lower clause_text in
         case risk_loop risk_patterns clause_text clause_lower 0.0 0.0 of
           (total_score, total_weight) \<Rightarrow>
             (let additional_risk = calculate_additional_risk_factors clause_text;
                  total_score = total_score + additional_risk
              in if total_weight > 0 then min 1.0 (total_score / total_weight)
                 else additional_risk)))"

definition risk_checks :: "(string \<times> regex) list" where
  "risk_checks =
    [(''Unlimited Liability'',
        seqs [WordB, words [''unlimited'', ''unrestricted''], sp1,
              words [''liability'', ''responsibility''], WordB]),
     (''Automatic Termination'',
        seqs [WordB, words [''automatic'', ''immediate''], sp1,
              words [''termination'', ''cancellation''], WordB]),
     (''Penalty Clauses'', penalty_pattern),
     (''Indemnification'', seqs [WordB, words [''indemnify'', ''hold harmless''], WordB]),
     (''Waiver of Rights'',
        seqs [WordB, words [''waive'', ''waiver''], sp1, words [''all'', ''any''], sp1,
              alt [plural ''right'', plural ''claim''], WordB]),
     (''Consequential Damages'',
        seqs [WordB, words [''consequential'', ''punitive'', ''special''], sp1, Lit ''damages'',
              WordB]),
     (''Irrevocable Terms'', seqs [WordB, words [''irrevocable'', ''permanent'', ''final''], WordB]),
     (''Exclusive Remedy'',
        seqs [WordB, words [''exclusive'', ''sole''], sp1, words [''remedy'', ''recourse''],
              WordB]),
     (''Confidentiality Breach'',
        seqs [WordB, words [''confidential'', ''proprietary''], sp1,
              words [''information'', ''data''], WordB]),
     (''Payment Default'',
        seqs [WordB, words [''payment'', ''fee''], sp1, words [''due'', ''payable''], sp1,
              words [''within'', ''by''], WordB])]"

definition identify_risk_factors :: "string \<Rightarrow> string list" where
  "identify_risk_factors clause_text =
     (let clause_lower = lower clause_text
      in map fst (filter (\<lambda>(factor_name, pattern). re_search False pattern clause_lower)
                    risk_checks))"

fun join :: "string \<Rightarrow> string list \<Rightarrow> string" where
  \<comment> \<open>\<open>sep.join(xs)\<close>\<close>
  "join sep [] = []"
| "join sep [x] = x"
| "join sep (x # xs) = x @ sep @ join sep xs"

definition generate_risk_explanation :: "string \<Rightarrow> string list \<Rightarrow> string" where
  "generate_risk_explanation level factors =
     (let base_explanation =
            (if level = ''high'' then
               ''This clause contains high-risk elements that could significantly impact your rights or obligations.''
             else if level = ''medium'' then
               ''This clause contains moderate-risk elements that should be carefully reviewed.''
             else
               ''This clause appears to have low-risk elements, but should still be reviewed.'')
      in if factors \<noteq> [] then
           base_explanation @ '' Identified risk factors: '' @ join '', '' factors @ ''.''
         else base_explanation)"

record assessment =
  clause_id :: pyval
  risk_score :: real
  risk_level :: string
  color :: string
  risk_factors :: "string list"
  explanation :: string

datatype exn = AttributeError

definition level_and_color :: "real \<Rightarrow> string \<times> string" where
  \<comment> \<open>the \<open>if\<close>/\<open>elif\<close> chain on the score, shared by both loops\<close>
  "level_and_color score =
     (if score \<ge> 0.7 then (''high'', ''#ff4444'')
      else if score \<ge> 0.4 then (''medium'', ''#ffaa00'')
      else (''low'', ''#44aa44''))"

fun calculate_risks :: "pydict list \<Rightarrow> exn + assessment list" where
  \<comment> \<open>\<open>clause_text.strip()\<close> raises \<open>AttributeError\<close> when the value under
      \<open>text\<close> is not a string\<close>
  "calculate_risks [] = Inr []"
| "calculate_risks (clause # rest) =
     (case py_get clause ''text'' (PyStr []) of
        PyStr clause_text \<Rightarrow>
          (let cid = py_get clause ''id'' (PyInt 0);
               score = analyze_clause_risk clause_text;
               (level, col) = level_and_color score;
               factors = identify_risk_factors clause_text;
               entry = \<lparr>clause_id = cid, risk_score = score, risk_level = level, color = col,
                        risk_factors = factors,
                        explanation = generate_risk_explanation level factors\<rparr>
           in case calculate_risks rest of
                Inl e \<Rightarrow> Inl e
              | Inr risk_scores \<Rightarrow> Inr (entry # risk_scores))
      | _ \<Rightarrow> Inl AttributeError)"

type_synonym rng = "nat \<Rightarrow> real"

definition uniform :: "real \<Rightarrow> real \<Rightarrow> rng \<Rightarrow> real \<times> rng" where
  \<comment> \<open>\<open>random.uniform(a, b)\<close>: the generator is the sequence of the values that
      \<open>random.random()\<close> will return, each in \<open>[0, 1)\<close>; a draw takes the first\<close>
  "uniform a b g = (a + (b - a) * g 0, \<lambda>n. g (Suc n))"

definition round_half_even :: "real \<Rightarrow> int" where
  "round_half_even y =
     (let f = \<lfloor>y\<rfloor> in
      if y - of_int f < 1 / 2 then f
      else if y - of_int f > 1 / 2 then f + 1
      else if even f then f else f + 1)"

definition round2 :: "real \<Rightarrow> real" where
  \<comment> \<open>\<open>round(x, 2)\<close>\<close>
  "round2 x = of_int (round_half_even (x * 100)) / 100"

definition mock_level :: "real \<Rightarrow> string \<times> string \<times> string list" where
  \<comment> \<open>the \<open>if\<close>/\<open>elif\<close> chain of the fallback: level, colour and canned factors\<close>
  "mock_level score =
     (if score \<ge> 0.7 then (''high'', ''#ff4444'', [''Unlimited Liability'', ''Automatic Termination''])
      else if score \<ge> 0.4 then
        (''medium'', ''#ffaa00'', [''Payment Default'', ''Confidentiality Breach''])
      else (''low'', ''#44aa44'', [''Standard Terms'']))"

fun generate_mock_risk_scores :: "rng \<Rightarrow> pydict list \<Rightarrow> assessment list" where
  "generate_mock_risk_scores g [] = []"
| "generate_mock_risk_scores g (clause # rest) =
     (let cid = py_get clause ''id'' (PyInt 0);
          (score, g') = uniform 0.1 0.9 g;
          (level, col, factors) = mock_level score
      in \<lparr>clause_id = cid, risk_score = round2 score, risk_level = level, color = col,
           risk_factors = factors, explanation = generate_risk_explanation level factors\<rparr>
         # generate_mock_risk_scores g' rest)"

definition calculate_risk_scores :: "rng \<Rightarrow> pydict list \<Rightarrow> assessment list" where
  \<comment> \<open>the \<open>try\<close>/\<open>except\<close> around \<open>_calculate_risks\<close>; the executor runs the call
      and hands its result or its exception back\<close>
  "calculate_risk_scores g clauses =
     (case calculate_risks clauses of
        Inr risk_scores \<Rightarrow> risk_scores
      | Inl e \<Rightarrow> generate_mock_risk_scores g clauses)"

definition analyze_document :: "rng \<Rightarrow> string \<Rightarrow> pydict list \<times> assessment list" where
  \<comment> \<open>the two steps of \<open>upload_document\<close> in \<open>main_full.py\<close>: segmentation of the
      extracted text, then risk scoring of the clauses\<close>
  "analyze_document g text_in =
     (let clauses = segment_clauses text_in;
          risk_scores = calculate_risk_scores g clauses
      in (clauses, risk_scores))"

section \<open>Notions of the specification\<close>

text \<open>
  The definitions of this section are not code of the repository: they read the fields
  of a clause dictionary and write down the formulas of the specification, to be
  compared with the functions above.
\<close>

definition text_of :: "pydict \<Rightarrow> string" where
  \<comment> \<open>the string under the key \<open>text\<close>\<close>
  "text_of d = (case d ''text'' of Some (PyStr s) \<Rightarrow> s | _ \<Rightarrow> [])"

definition start_index_of :: "pydict \<Rightarrow> int" where
  \<comment> \<open>the integer under the key \<open>start_index\<close>\<close>
  "start_index_of d = (case d ''start_index'' of Some (PyInt i) \<Rightarrow> i | _ \<Rightarrow> 0)"

definition squeeze :: "string \<Rightarrow> string" where
  \<comment> \<open>a text up to whitespace: all whitespace removed\<close>
  "squeeze s = filter (\<lambda>c. \<not> isspace c) s"

definition content :: "string \<Rightarrow> string" where
  \<comment> \<open>a text up to whitespace and the sentence terminators\<close>
  "content s = filter (\<lambda>c. \<not> isspace c \<and> c \<notin> set ''.!?'') s"

definition clamp01 :: "real \<Rightarrow> real" where
  "clamp01 x = max 0 (min 1 x)"

definition spec_pattern_component :: "string \<Rightarrow> real" where
  \<comment> \<open>Written from the specification: \<open>total_score / total_weight\<close> of the weighted
      groups alone, \<open>0\<close> when no group matched\<close>
  "spec_pattern_component clause_text =
     (case risk_loop risk_patterns clause_text (lower clause_text) 0 0 of
        (total_score, total_weight) \<Rightarrow>
          if total_weight > 0 then total_score / total_weight else 0)"

definition spec_final_score :: "string \<Rightarrow> real" where
  \<comment> \<open>Written from the specification: the pattern component plus the additional
      adjustments, clamped once\<close>
  "spec_final_score clause_text =
     clamp01 (spec_pattern_component clause_text + calculate_additional_risk_factors clause_text)"

definition length_bonus :: "string \<Rightarrow> real" where
  "length_bonus clause_text =
     (if len clause_text > 200 then 0.1 else if len clause_text > 100 then 0.05 else 0)"

fun occurrences :: "string \<Rightarrow> string \<Rightarrow> nat" where
  \<comment> \<open>the number of positions of the text at which the word occurs\<close>
  "occurrences [] w = 0"
| "occurrences (c # s) w = (if startswith (c # s) w then 1 else 0) + occurrences s w"

definition count_occurrences :: "string list \<Rightarrow> string \<Rightarrow> nat" where
  "count_occurrences ws s = sum_list (map (occurrences s) ws)"

definition spec_additional_adjustments :: "string \<Rightarrow> real" where
  \<comment> \<open>Written from the specification: every occurrence of a keyword counts\<close>
  "spec_additional_adjustments clause_text =
     length_bonus clause_text
     + min 0.2 (0.05 * real (count_occurrences negation_words (lower clause_text)))
     + min 0.15 (0.03 * real (count_occurrences uncertainty_words (lower clause_text)))
     + min 0.1 (0.05 * real (count_occurrences time_words (lower clause_text)))"

definition keywords_present :: "string list \<Rightarrow> string \<Rightarrow> string set" where
  \<comment> \<open>the keywords of the list that occur in the text at least once\<close>
  "keywords_present ws s = {w \<in> set ws. contains s w}"

definition no_pattern_matches :: "string \<Rightarrow> bool" where
  \<comment> \<open>no pattern of a weighted group is found in the lowercased clause\<close>
  "no_pattern_matches clause_text =
     list_all (\<lambda>(name, patterns, weight).
       list_all (\<lambda>r. findall_count True r (lower clause_text) = 0) patterns) risk_patterns"

section \<open>Evaluation of the character classes\<close>

text \<open>
  The character predicates are defined by membership in a list of characters. The
  equations below say the same on the eight bits of a character; they are proved from the
  definitions and serve as the equations by which concrete texts are evaluated.
\<close>

lemma is_word_bits [code]:
  "is_word (Char b0 b1 b2 b3 b4 b5 b6 b7) =
     (\<not> b7 \<and>
      (if b6 then ((b0 \<or> b1 \<or> b2 \<or> b3 \<or> b4) \<and> \<not> (b4 \<and> b3 \<and> (b2 \<or> (b1 \<and> b0))))
                  \<or> (\<not> b5 \<and> b4 \<and> b3 \<and> b2 \<and> b1 \<and> b0)
       else b5 \<and> b4 \<and> (\<not> b3 \<or> (\<not> b2 \<and> \<not> b1))))"
  by (cases b0; cases b1; cases b2; cases b3; cases b4; cases b5; cases b6; cases b7;
      simp add: is_word_def lower_letters_def upper_letters_def digits_def)

lemma lower_char_bits [code]:
  "lower_char (Char b0 b1 b2 b3 b4 b5 b6 b7) =
     (if \<not> b7 \<and> b6 \<and> \<not> b5 \<and> (b0 \<or> b1 \<or> b2 \<or> b3 \<or> b4)
         \<and> \<not> (b4 \<and> b3 \<and> (b2 \<or> (b1 \<and> b0)))
      then Char b0 b1 b2 b3 b4 True b6 b7 else Char b0 b1 b2 b3 b4 b5 b6 b7)"
  by (cases b0; cases b1; cases b2; cases b3; cases b4; cases b5; cases b6; cases b7;
      simp add: lower_char_def lower_letters_def upper_letters_def)

lemma isspace_bits [code]:
  "isspace (Char b0 b1 b2 b3 b4 b5 b6 b7) =
     (\<not> b7 \<and> \<not> b6 \<and>
      (if b5 then \<not> b4 \<and> \<not> b3 \<and> \<not> b2 \<and> \<not> b1 \<and> \<not> b0
       else if b4 then b3 \<and> b2
       else b3 \<and> (if b2 then \<not> b1 else b0 \<or> b1)))"
  by (cases b0; cases b1; cases b2; cases b3; cases b4; cases b5; cases b6; cases b7;
      simp add: isspace_def whitespace_def)

section \<open>Facts about the risk score\<close>

lemma min_scaled_bounds:
  fixes cap k :: real
  assumes "0 \<le> cap" "0 \<le> k"
  shows "0 \<le> min cap (real n * k)" "min cap (real n * k) \<le> cap"
  using assms by simp_all

lemma additional_bounds:
  "0 \<le> calculate_additional_risk_factors t \<and> calculate_additional_risk_factors t \<le> 0.55"
proof -
  define a where "a = min 0.2 (real (count_present negation_words (lower t)) * 0.05)"
  define b where "b = min 0.15 (real (count_present uncertainty_words (lower t)) * 0.03)"
  define c where "c = min 0.1 (real (count_present time_words (lower t)) * 0.05)"
  have a: "0 \<le> a" "a \<le> 0.2" unfolding a_def by simp_all
  have b: "0 \<le> b" "b \<le> 0.15" unfolding b_def by simp_all
  have c: "0 \<le> c" "c \<le> 0.1" unfolding c_def by simp_all
  have eq: "calculate_additional_risk_factors t =
      (if len t > 200 then 0.1 else if len t > 100 then 0.05 else 0) + a + b + c"
    by (simp add: calculate_additional_risk_factors_def Let_def a_def b_def c_def)
  show ?thesis unfolding eq using a b c by auto
qed

lemma risk_loop_nonneg:
  "list_all (\<lambda>(l, ps, w). 0 \<le> w) gs \<Longrightarrow> 0 \<le> ts \<Longrightarrow> 0 \<le> tw \<Longrightarrow>
   0 \<le> fst (risk_loop gs t lo ts tw) \<and> 0 \<le> snd (risk_loop gs t lo ts tw)"
proof (induction gs arbitrary: ts tw)
  case Nil
  then show ?case by simp
next
  case (Cons g gs)
  obtain l ps w where g: "g = (l, ps, w)" by (cases g)
  from Cons.prems have w: "0 \<le> w" and rest: "list_all (\<lambda>(l, ps, w). 0 \<le> w) gs"
    by (simp_all add: g)
  show ?case
  proof (cases "count_matches ps lo > 0")
    case True
    have "0 \<le> ts + real (count_matches ps lo) / real (max 1 (length (split t))) * w"
      using Cons.prems(2) w by simp
    moreover have "0 \<le> tw + w" using Cons.prems(3) w by simp
    ultimately show ?thesis
      using Cons.IH[OF rest] True by (simp add: g Let_def)
  next
    case False
    then show ?thesis using Cons.IH[OF rest Cons.prems(2,3)] by (simp add: g)
  qed
qed

lemma weights_nonneg: "list_all (\<lambda>(l, ps, w). 0 \<le> w) risk_patterns"
  by (simp add: risk_patterns_def)

lemma analyze_eq:
  "strip t \<noteq> [] \<Longrightarrow>
   analyze_clause_risk t =
     (let ts = fst (risk_loop risk_patterns t (lower t) 0 0);
          tw = snd (risk_loop risk_patterns t (lower t) 0 0);
          a = calculate_additional_risk_factors t
      in if tw > 0 then min 1 ((ts + a) / tw) else a)"
  by (simp add: analyze_clause_risk_def Let_def split: prod.splits)

lemma analyze_bounds: "0 \<le> analyze_clause_risk t \<and> analyze_clause_risk t \<le> 1"
proof (cases "strip t = []")
  case True
  then show ?thesis by (simp add: analyze_clause_risk_def)
next
  case False
  let ?ts = "fst (risk_loop risk_patterns t (lower t) 0 0)"
  let ?tw = "snd (risk_loop risk_patterns t (lower t) 0 0)"
  let ?a = "calculate_additional_risk_factors t"
  have nn: "0 \<le> ?ts" "0 \<le> ?tw"
    using risk_loop_nonneg[OF weights_nonneg, of 0 0 t "lower t"] by simp_all
  have a: "0 \<le> ?a" "?a \<le> 0.55" using additional_bounds[of t] by simp_all
  show ?thesis
  proof (cases "?tw > 0")
    case True
    have "0 \<le> (?ts + ?a) / ?tw" using nn a True by simp
    then show ?thesis using analyze_eq[OF False] True by (simp add: Let_def)
  next
    case False2: False
    then show ?thesis using analyze_eq[OF False] a by (simp add: Let_def)
  qed
qed

lemma risk_loop_no_match:
  "list_all (\<lambda>(l, ps, w). count_matches ps lo = 0) gs \<Longrightarrow> risk_loop gs t lo ts tw = (ts, tw)"
proof (induction gs arbitrary: ts tw)
  case Nil
  then show ?case by simp
next
  case (Cons g gs)
  then show ?case by (cases g) (simp add: Let_def)
qed

lemma count_matches_zero:
  "list_all (\<lambda>r. findall_count True r lo = 0) ps \<Longrightarrow> count_matches ps lo = 0"
  by (induction ps) (simp_all add: count_matches_def)

lemma no_match_totals:
  assumes "no_pattern_matches t"
  shows "risk_loop risk_patterns t (lower t) 0 0 = (0, 0)"
proof -
  have "list_all (\<lambda>(l, ps, w). count_matches ps (lower t) = 0) risk_patterns"
    using assms unfolding no_pattern_matches_def
    by (auto simp: list_all_iff intro!: count_matches_zero)
  then show ?thesis by (rule risk_loop_no_match)
qed

lemma count_present_card:
  assumes "distinct ws"
  shows "count_present ws s = card (keywords_present ws s)"
proof -
  have "card (set (filter (\<lambda>w. contains s w) ws)) = length (filter (\<lambda>w. contains s w) ws)"
    using assms by (intro distinct_card) simp
  moreover have "keywords_present ws s = set (filter (\<lambda>w. contains s w) ws)"
    by (auto simp: keywords_present_def)
  ultimately show ?thesis by (simp add: count_present_def)
qed

lemma keyword_lists_distinct:
  "distinct negation_words" "distinct uncertainty_words" "distinct time_words"
  by (simp_all add: negation_words_def uncertainty_words_def time_words_def)

lemma calculate_risks_entry:
  "calculate_risks clauses = Inr risk_scores \<Longrightarrow> a \<in> set risk_scores \<Longrightarrow>
   \<exists>t. risk_score a = analyze_clause_risk t
       \<and> (risk_level a, color a) = level_and_color (analyze_clause_risk t)"
proof (induction clauses arbitrary: risk_scores)
  case Nil
  then show ?case by simp
next
  case (Cons clause rest)
  from Cons.prems(1) obtain t rs e where
    t: "py_get clause ''text'' (PyStr []) = PyStr t" and
    rs: "calculate_risks rest = Inr rs" and
    out: "risk_scores = e # rs" and
    e: "risk_score e = analyze_clause_risk t"
       "(risk_level e, color e) = level_and_color (analyze_clause_risk t)"
    by (auto simp: Let_def split: pyval.splits sum.splits prod.splits)
  from Cons.prems(2) out have "a = e \<or> a \<in> set rs" by simp
  then show ?case
  proof
    assume "a = e"
    with e show ?thesis by blast
  next
    assume "a \<in> set rs"
    from Cons.IH[OF rs this] show ?thesis .
  qed
qed

section \<open>Facts about the segmentation\<close>

lemma filter_dropWhile_disjoint:
  "(\<And>x. Q x \<Longrightarrow> \<not> P x) \<Longrightarrow> filter P (dropWhile Q xs) = filter P xs"
  by (induction xs) auto

lemma content_strip: "content (strip s) = content s"
proof -
  have l: "content (lstrip s) = content s"
    unfolding content_def lstrip_def by (rule filter_dropWhile_disjoint) simp
  have "content (rstrip (lstrip s)) = rev (content (dropWhile isspace (rev (lstrip s))))"
    by (simp add: content_def rstrip_def rev_filter)
  also have "\<dots> = rev (content (rev (lstrip s)))"
    unfolding content_def by (subst filter_dropWhile_disjoint) simp_all
  also have "\<dots> = content (lstrip s)"
    by (simp add: content_def rev_filter)
  finally show ?thesis by (simp add: strip_def l)
qed

lemma content_append: "content (a @ b) = content a @ content b"
  by (simp add: content_def)

lemma content_blank: "strip s = [] \<Longrightarrow> content s = []"
  using content_strip[of s] by (simp add: content_def)

lemma content_Nil: "content [] = []"
  by (simp add: content_def)

lemma content_space: "content (CHR '' '' # s) = content s"
  by (simp add: content_def isspace_def whitespace_def)

lemma content_split_runs:
  "content (concat (split_runs (\<lambda>c. c \<in> set ''.!?'') inrun w s)) = content (rev w @ s)"
proof (induction s arbitrary: inrun w)
  case Nil
  then show ?case by simp
next
  case (Cons c s)
  show ?case
  proof (cases "c \<in> set ''.!?''")
    case True
    then have drop: "content (c # s) = content s" by (simp add: content_def)
    show ?thesis
    proof (cases inrun)
      case True
      with \<open>c \<in> set ''.!?''\<close> Cons.IH[of True w] drop show ?thesis
        by (simp add: content_append)
    next
      case False
      with \<open>c \<in> set ''.!?''\<close> Cons.IH[of True "[]"] drop show ?thesis
        by (simp add: content_append)
    qed
  next
    case False
    with Cons.IH[of False "c # w"] show ?thesis by simp
  qed
qed

lemma content_sentences: "content (concat (split_into_sentences t)) = content t"
proof -
  have pieces: "content (concat (map strip (filter (\<lambda>s. strip s \<noteq> []) ps))) = content (concat ps)"
    for ps
    by (induction ps) (simp_all add: content_append content_strip content_blank)
  show ?thesis
    unfolding split_into_sentences_def pieces
    using content_split_runs[of False "[]" t] by simp
qed

lemma text_of_make_clause: "text_of (make_clause i c s) = strip c"
  by (simp add: text_of_def make_clause_def)

lemma segment_loop_content:
  "segment_loop t ss cs cur i st = (cs', cur', i', st') \<Longrightarrow>
   content (concat (map text_of cs') @ cur') = content (concat (map text_of cs) @ cur @ concat ss)"
proof (induction ss arbitrary: cs cur i st)
  case Nil
  then show ?case by simp
next
  case (Cons sentence rest)
  show ?case
  proof (cases "is_clause_start sentence")
    case True
    show ?thesis
    proof (cases "strip cur = []")
      case blank: True
      from Cons.prems True blank
      have "segment_loop t rest cs sentence i (str_find t sentence) = (cs', cur', i', st')" by simp
      from Cons.IH[OF this] show ?thesis
        by (simp add: content_append content_blank[OF blank])
    next
      case False
      from Cons.prems True False
      have "segment_loop t rest (cs @ [make_clause i cur st]) sentence (i + 1) (str_find t sentence)
              = (cs', cur', i', st')" by simp
      from Cons.IH[OF this] show ?thesis
        by (simp add: content_append text_of_make_clause content_strip)
    qed
  next
    case False
    from Cons.prems False
    have "segment_loop t rest cs (cur @ '' '' @ sentence) i st = (cs', cur', i', st')" by simp
    from Cons.IH[OF this] show ?thesis
      by (simp add: content_append content_space)
  qed
qed

lemma segment_text_content: "content (concat (map text_of (segment_text t))) = content t"
proof -
  obtain cs cur i st where
    loop: "segment_loop t (split_into_sentences t) [] [] 1 0 = (cs, cur, i, st)"
    by (cases "segment_loop t (split_into_sentences t) [] [] 1 0") auto
  let ?final = "if strip cur \<noteq> [] then cs @ [make_clause i cur st] else cs"
  have inv: "content (concat (map text_of cs) @ cur) = content t"
    using segment_loop_content[OF loop] content_sentences[of t] by simp
  have fin: "content (concat (map text_of ?final)) = content t"
    using inv by (auto simp: content_append text_of_make_clause content_strip content_blank)
  have whole: "content (text_of [''id'' \<mapsto> PyInt 1, ''text'' \<mapsto> PyStr t,
        ''type'' \<mapsto> PyStr ''general'', ''start_index'' \<mapsto> PyInt 0,
        ''end_index'' \<mapsto> PyInt (len t), ''confidence'' \<mapsto> PyFloat 0.5]) = content t"
    by (simp add: text_of_def)
  show ?thesis
  proof (cases "?final = []")
    case True
    then show ?thesis using whole by (simp add: segment_text_def loop Let_def)
  next
    case False
    then have "segment_text t = ?final" by (simp add: segment_text_def loop Let_def)
    with fin show ?thesis by simp
  qed
qed

lemma segment_text_nonempty: "segment_text t \<noteq> []"
  by (simp add: segment_text_def Let_def split: prod.splits)

lemma make_clause_text: "make_clause i c s ''text'' = Some (PyStr (strip c))"
  by (simp add: make_clause_def)

lemma segment_loop_texts:
  "segment_loop t ss cs cur i st = (cs', cur', i', st') \<Longrightarrow>
   list_all (\<lambda>d. \<exists>s. d ''text'' = Some (PyStr s)) cs \<Longrightarrow>
   list_all (\<lambda>d. \<exists>s. d ''text'' = Some (PyStr s)) cs'"
proof (induction ss arbitrary: cs cur i st)
  case Nil
  then show ?case by simp
next
  case (Cons sentence rest)
  show ?case
  proof (cases "is_clause_start sentence \<and> strip cur \<noteq> []")
    case True
    with Cons.prems(1)
    have "segment_loop t rest (cs @ [make_clause i cur st]) sentence (i + 1) (str_find t sentence)
            = (cs', cur', i', st')" by simp
    moreover have "list_all (\<lambda>d. \<exists>s. d ''text'' = Some (PyStr s)) (cs @ [make_clause i cur st])"
      using Cons.prems(2) by (simp add: make_clause_text)
    ultimately show ?thesis by (rule Cons.IH)
  next
    case False
    with Cons.prems(1) obtain cur2 st2 where
      "segment_loop t rest cs cur2 i st2 = (cs', cur', i', st')"
      by (auto split: if_splits)
    then show ?thesis using Cons.prems(2) by (rule Cons.IH)
  qed
qed

lemma segment_clauses_texts:
  "list_all (\<lambda>d. \<exists>s. d ''text'' = Some (PyStr s)) (segment_clauses t)"
proof -
  obtain cs cur i st where
    loop: "segment_loop t (split_into_sentences t) [] [] 1 0 = (cs, cur, i, st)"
    by (cases "segment_loop t (split_into_sentences t) [] [] 1 0") auto
  have "list_all (\<lambda>d. \<exists>s. d ''text'' = Some (PyStr s)) cs"
    using segment_loop_texts[OF loop] by simp
  then have "list_all (\<lambda>d. \<exists>s. d ''text'' = Some (PyStr s)) (segment_text t)"
    by (simp add: segment_text_def loop Let_def make_clause_text)
  then show ?thesis by (simp add: segment_clauses_def)
qed

lemma calculate_risks_total:
  "list_all (\<lambda>d. \<exists>s. d ''text'' = Some (PyStr s)) clauses \<Longrightarrow>
   \<exists>risk_scores. calculate_risks clauses = Inr risk_scores"
proof (induction clauses)
  case Nil
  then show ?case by simp
next
  case (Cons clause rest)
  then obtain s rs where "clause ''text'' = Some (PyStr s)" "calculate_risks rest = Inr rs"
    by auto
  then show ?case by (simp add: py_get_def Let_def split: prod.splits)
qed

section \<open>The claims\<close>

subsection \<open>C1: the score formula\<close>

text \<open>
  C1, counterexample. The claim: for a clause text that is not blank the score is the
  pattern component \<open>total_score / total_weight\<close> plus the additional adjustments,
  clamped once, the adjustments being added after the division. For the clause below
  only the patterns of the group \<open>low\<close> match (weight \<open>0.2\<close>); the function
  returns \<open>11/12\<close>, the formula of the claim gives \<open>19/60\<close>.
\<close>

theorem score_formula_counterexample:
  "strip ''Fees are generally refundable without notice'' \<noteq> []
   \<and> analyze_clause_risk ''Fees are generally refundable without notice'' = 11 / 12
   \<and> spec_final_score ''Fees are generally refundable without notice'' = 19 / 60"
  by code_simp

text \<open>
  C1, as amended. For every clause text that is not blank, \<open>_analyze_clause_risk\<close>
  adds the additional adjustments to \<open>total_score\<close> before the division: the score is
  \<open>(total_score + additional) / total_weight\<close> when \<open>total_weight > 0\<close> and the
  additional adjustments alone otherwise, clamped once to \<open>[0, 1]\<close>.
\<close>

theorem score_adds_before_division:
  assumes "strip clause_text \<noteq> []"
  shows "analyze_clause_risk clause_text =
     clamp01 (case risk_loop risk_patterns clause_text (lower clause_text) 0 0 of
                (total_score, total_weight) \<Rightarrow>
                  if total_weight > 0
                  then (total_score + calculate_additional_risk_factors clause_text) / total_weight
                  else calculate_additional_risk_factors clause_text)"
proof -
  obtain ts tw where r: "risk_loop risk_patterns clause_text (lower clause_text) 0 0 = (ts, tw)"
    by (cases "risk_loop risk_patterns clause_text (lower clause_text) 0 0")
  let ?a = "calculate_additional_risk_factors clause_text"
  have nn: "0 \<le> ts" "0 \<le> tw"
    using risk_loop_nonneg[OF weights_nonneg, of 0 0 clause_text "lower clause_text"]
    by (simp_all add: r)
  have a: "0 \<le> ?a" "?a \<le> 0.55" using additional_bounds[of clause_text] by simp_all
  show ?thesis
  proof (cases "tw > 0")
    case True
    have "0 \<le> (ts + ?a) / tw" using nn a True by simp
    then have "clamp01 ((ts + ?a) / tw) = min 1 ((ts + ?a) / tw)"
      by (simp add: clamp01_def)
    then show ?thesis using analyze_eq[OF assms] True by (simp add: r)
  next
    case False
    have "clamp01 ?a = ?a" using a by (simp add: clamp01_def)
    then show ?thesis using analyze_eq[OF assms] False by (simp add: r)
  qed
qed

text \<open>The amended C1 at a clause text that is not blank.\<close>

theorem score_adds_before_division_witness:
  "strip ''Fees are generally refundable without notice'' \<noteq> []
   \<and> analyze_clause_risk ''Fees are generally refundable without notice'' =
       clamp01 (case risk_loop risk_patterns ''Fees are generally refundable without notice''
                       (lower ''Fees are generally refundable without notice'') 0 0 of
                (total_score, total_weight) \<Rightarrow>
                  if total_weight > 0
                  then (total_score + calculate_additional_risk_factors
                          ''Fees are generally refundable without notice'') / total_weight
                  else calculate_additional_risk_factors
                          ''Fees are generally refundable without notice'')"
proof -
  have h: "strip ''Fees are generally refundable without notice'' \<noteq> []" by code_simp
  from score_adds_before_division[OF h] h show ?thesis by blast
qed

subsection \<open>C2: order of the clauses and reconstruction of the text\<close>

text \<open>
  C2, counterexample. The claim: the clauses come in non-decreasing \<open>start_index\<close> order
  and their texts, concatenated, are the source text up to whitespace. In the text below
  the third clause repeats the first one: \<open>text.find\<close> gives it the position of the
  first, so the start indices are \<open>0, 6, 0\<close>; and the concatenated clause texts lack the
  full stops of the source, which are not whitespace.
\<close>

theorem clause_order_counterexample:
  "map start_index_of (segment_clauses ''IF a. IF b. IF a.'') = [0, 6, 0]
   \<and> \<not> sorted (map start_index_of (segment_clauses ''IF a. IF b. IF a.''))
   \<and> squeeze (concat (map text_of (segment_clauses ''IF a. IF b. IF a.''))) = ''IFaIFbIFa''
   \<and> squeeze ''IF a. IF b. IF a.'' = ''IFa.IFb.IFa.''"
proof -
  have a: "map start_index_of (segment_clauses ''IF a. IF b. IF a.'') = [0, 6, 0]"
    by code_simp
  have b: "squeeze (concat (map text_of (segment_clauses ''IF a. IF b. IF a.''))) = ''IFaIFbIFa''"
    by code_simp
  have c: "squeeze ''IF a. IF b. IF a.'' = ''IFa.IFb.IFa.''"
    by code_simp
  show ?thesis unfolding a using b c by simp
qed

text \<open>
  C2, as amended. For every input text, the texts of the clauses that \<open>segment_clauses\<close>
  returns, concatenated in output order, are the source text up to whitespace and up to
  the sentence terminators \<open>.\<close>, \<open>!\<close> and \<open>?\<close>, which segmentation drops. (Nothing is
  said about the order of the start indices.)
\<close>

theorem clause_texts_reproduce_content:
  "content (concat (map text_of (segment_clauses text_in))) = content text_in"
proof (cases "strip text_in = []")
  case True
  then show ?thesis by (simp add: segment_clauses_def content_blank content_Nil)
next
  case False
  then show ?thesis by (simp add: segment_clauses_def segment_text_content)
qed

subsection \<open>C3: score range, level thresholds and colours\<close>

text \<open>
  C3. For every assessment that \<open>_calculate_risks\<close> returns, \<open>risk_score\<close> lies in
  \<open>[0, 1]\<close>; \<open>risk_level\<close> is \<open>high\<close> from \<open>0.7\<close> on, \<open>medium\<close> from \<open>0.4\<close>
  on and \<open>low\<close> below; and \<open>color\<close> is \<open>#ff4444\<close> exactly for \<open>high\<close>,
  \<open>#ffaa00\<close> exactly for \<open>medium\<close> and \<open>#44aa44\<close> exactly for \<open>low\<close>.
\<close>

theorem risk_assessment_wellformed:
  assumes "calculate_risks clauses = Inr risk_scores" and "a \<in> set risk_scores"
  shows "0 \<le> risk_score a \<and> risk_score a \<le> 1
    \<and> risk_level a = (if risk_score a \<ge> 0.7 then ''high''
                      else if risk_score a \<ge> 0.4 then ''medium'' else ''low'')
    \<and> ((risk_level a = ''high'') = (color a = ''#ff4444''))
    \<and> ((risk_level a = ''medium'') = (color a = ''#ffaa00''))
    \<and> ((risk_level a = ''low'') = (color a = ''#44aa44''))"
proof -
  from calculate_risks_entry[OF assms] obtain t where
    s: "risk_score a = analyze_clause_risk t" and
    lc: "(risk_level a, color a) = level_and_color (risk_score a)"
    by auto
  have b: "0 \<le> risk_score a" "risk_score a \<le> 1" using analyze_bounds[of t] s by simp_all
  have l: "risk_level a = (if risk_score a \<ge> 0.7 then ''high''
                      else if risk_score a \<ge> 0.4 then ''medium'' else ''low'')"
    using lc by (simp add: level_and_color_def split: if_splits)
  have c: "color a = (if risk_score a \<ge> 0.7 then ''#ff4444''
                      else if risk_score a \<ge> 0.4 then ''#ffaa00'' else ''#44aa44'')"
    using lc by (simp add: level_and_color_def split: if_splits)
  show ?thesis using b l c by (simp split: if_splits)
qed

text \<open>C3 at a clause whose score is \<open>11/12\<close>.\<close>

theorem risk_assessment_wellformed_witness:
  "calculate_risks [[''id'' \<mapsto> PyInt 7,
       ''text'' \<mapsto> PyStr ''Fees are generally refundable without notice'']] =
     Inr [\<lparr>clause_id = PyInt 7, risk_score = 11 / 12, risk_level = ''high'',
            color = ''#ff4444'', risk_factors = [],
            explanation = ''This clause contains high-risk elements that could significantly impact your rights or obligations.''\<rparr>]
   \<and> (0::real) \<le> 11 / 12 \<and> (11::real) / 12 \<le> 1"
proof -
  let ?e = "\<lparr>clause_id = PyInt 7, risk_score = 11 / 12, risk_level = ''high'',
            color = ''#ff4444'', risk_factors = [],
            explanation = ''This clause contains high-risk elements that could significantly impact your rights or obligations.''\<rparr>"
  have h: "calculate_risks [[''id'' \<mapsto> PyInt 7,
       ''text'' \<mapsto> PyStr ''Fees are generally refundable without notice'']] = Inr [?e]"
    by code_simp
  have m: "?e \<in> set [?e]" by simp
  from risk_assessment_wellformed[OF h m] h show ?thesis by simp
qed

subsection \<open>C4: the sample document\<close>

text \<open>
  C4, counterexample. The claim: for the text below the analysis produces a second clause,
  with level \<open>high\<close>. Neither sentence opens with a boundary pattern, so segmentation
  returns one clause; and the second sentence scored on its own gets \<open>3/16\<close>, which is
  below \<open>0.4\<close>.
\<close>

theorem sample_second_clause_counterexample:
  "length (segment_clauses ''Either party may terminate this agreement immediately. The breaching party shall pay a penalty of $10,000 and indemnify the other party without limitation.'') = 1
   \<and> analyze_clause_risk ''The breaching party shall pay a penalty of $10,000 and indemnify the other party without limitation'' = 3 / 16"
  by code_simp

text \<open>
  C4, as amended. For the sample text the analysis produces exactly one clause, the two
  sentences joined by a space and without their full stops; its assessment has the score
  \<open>287/920\<close>, the level \<open>low\<close>, and the risk factors \<open>Penalty Clauses\<close> and
  \<open>Indemnification\<close>.
\<close>

theorem sample_single_clause_low:
  "map text_of (fst (analyze_document g ''Either party may terminate this agreement immediately. The breaching party shall pay a penalty of $10,000 and indemnify the other party without limitation.'')) =
     [''Either party may terminate this agreement immediately The breaching party shall pay a penalty of $10,000 and indemnify the other party without limitation'']
   \<and> snd (analyze_document g ''Either party may terminate this agreement immediately. The breaching party shall pay a penalty of $10,000 and indemnify the other party without limitation.'') =
     [\<lparr>clause_id = PyInt 1, risk_score = 287 / 920, risk_level = ''low'',
       color = ''#44aa44'',
       risk_factors = [''Penalty Clauses'', ''Indemnification''],
       explanation = ''This clause appears to have low-risk elements, but should still be reviewed. Identified risk factors: Penalty Clauses, Indemnification.''\<rparr>]"
proof -
  have texts: "map text_of (segment_clauses ''Either party may terminate this agreement immediately. The breaching party shall pay a penalty of $10,000 and indemnify the other party without limitation.'') =
     [''Either party may terminate this agreement immediately The breaching party shall pay a penalty of $10,000 and indemnify the other party without limitation'']"
    by code_simp
  have risks: "calculate_risks (segment_clauses ''Either party may terminate this agreement immediately. The breaching party shall pay a penalty of $10,000 and indemnify the other party without limitation.'') =
     Inr [\<lparr>clause_id = PyInt 1, risk_score = 287 / 920, risk_level = ''low'',
            color = ''#44aa44'',
            risk_factors = [''Penalty Clauses'', ''Indemnification''],
            explanation = ''This clause appears to have low-risk elements, but should still be reviewed. Identified risk factors: Penalty Clauses, Indemnification.''\<rparr>]"
    by code_simp
  show ?thesis
    by (simp only: analyze_document_def calculate_risk_scores_def Let_def texts risks
          fst_conv snd_conv sum.case simp_thms)
qed

subsection \<open>C5 and C6: the priority order of the clause types\<close>

text \<open>
  C5, counterexample. The claim: the sentence below is classified \<open>prohibition\<close>. The
  group \<open>obligation\<close> comes before \<open>prohibition\<close> and its first pattern finds
  \<open>agree to\<close> (and \<open>shall\<close>), so the result is not \<open>prohibition\<close>.
\<close>

theorem classify_confidential_counterexample:
  "classify_clause_type
     ''The parties agree to keep all information strictly confidential and shall not disclose it.''
   \<noteq> ''prohibition''"
  by code_simp

text \<open>
  C5, as amended. \<open>_classify_clause_type\<close> returns \<open>obligation\<close> for the sentence,
  because the group \<open>obligation\<close> is evaluated before the groups \<open>prohibition\<close> and
  \<open>confidentiality\<close>.
\<close>

theorem classify_confidential_obligation:
  "classify_clause_type
     ''The parties agree to keep all information strictly confidential and shall not disclose it.''
   = ''obligation''"
  by code_simp

text \<open>
  C6. \<open>_classify_clause_type\<close> returns \<open>obligation\<close> for the sentence below: the
  group \<open>obligation\<close> stands before \<open>termination\<close> in the order of evaluation, and
  evaluation from \<open>termination\<close> on would have answered \<open>termination\<close>.
\<close>

theorem classify_terminate_obligation:
  "classify_clause_type ''This Agreement shall terminate upon any breach by either party.''
     = ''obligation''
   \<and> map fst type_patterns =
       [''definition'', ''obligation'', ''prohibition'', ''condition'', ''termination'',
        ''liability'', ''payment'', ''confidentiality'']
   \<and> first_type (drop 4 type_patterns)
        (lower ''This Agreement shall terminate upon any breach by either party.'')
       = ''termination''"
  by code_simp

subsection \<open>C7: the additional adjustments\<close>

text \<open>
  C7, counterexample. The claim: every occurrence of a negation, hedging or urgency
  keyword counts until the cap. In the clause below \<open>never\<close> occurs twice and no other
  keyword occurs: the function adds \<open>0.05\<close>, counting by occurrences gives \<open>0.1\<close>.
\<close>

theorem additional_counts_counterexample:
  "calculate_additional_risk_factors ''The tenant shall never, never sublet'' = 1 / 20
   \<and> spec_additional_adjustments ''The tenant shall never, never sublet'' = 1 / 10"
  by code_simp

text \<open>
  C7, as amended. For every clause text, the additional adjustment is the length bonus
  plus \<open>0.05\<close> for each of the 8 negation keywords that occurs in the lowercased text at
  least once (as a substring), capped at \<open>0.2\<close>, plus \<open>0.03\<close> for each of the 6 hedging
  keywords that occurs, capped at \<open>0.15\<close>, plus \<open>0.05\<close> for each of the 5 urgency
  keywords that occurs, capped at \<open>0.1\<close>: a keyword counts once, however often it
  occurs.
\<close>

theorem additional_counts_keywords_present:
  "calculate_additional_risk_factors clause_text =
     length_bonus clause_text
     + min 0.2 (0.05 * real (card (keywords_present negation_words (lower clause_text))))
     + min 0.15 (0.03 * real (card (keywords_present uncertainty_words (lower clause_text))))
     + min 0.1 (0.05 * real (card (keywords_present time_words (lower clause_text))))"
  by (simp add: calculate_additional_risk_factors_def Let_def length_bonus_def
        count_present_card keyword_lists_distinct mult.commute)

subsection \<open>C8: empty and blank input\<close>

text \<open>
  C8. For an empty or whitespace-only text \<open>segment_clauses\<close> returns the empty list,
  \<open>_analyze_clause_risk\<close> returns \<open>0.0\<close> and \<open>_calculate_risks\<close> gives a clause with
  that text the score \<open>0.0\<close> and the level \<open>low\<close>; for every text that is not blank
  \<open>segment_clauses\<close> returns at least one clause.
\<close>

theorem blank_and_nonblank_input:
  "(strip text_in = [] \<longrightarrow>
      segment_clauses text_in = []
      \<and> analyze_clause_risk text_in = 0
      \<and> (\<forall>clause. clause ''text'' = Some (PyStr text_in) \<longrightarrow>
            (\<exists>a. calculate_risks [clause] = Inr [a] \<and> risk_score a = 0 \<and> risk_level a = ''low'')))
   \<and> (strip text_in \<noteq> [] \<longrightarrow> 1 \<le> length (segment_clauses text_in))"
proof -
  have "1 \<le> length (segment_text text_in)"
    using segment_text_nonempty[of text_in] by (cases "segment_text text_in") simp_all
  then show ?thesis
    by (simp add: segment_clauses_def analyze_clause_risk_def py_get_def level_and_color_def
          Let_def)
qed

text \<open>C8 at the empty text, at a whitespace-only text and at a text that is not blank.\<close>

theorem blank_and_nonblank_input_witness:
  "segment_clauses [] = [] \<and> analyze_clause_risk [] = 0
   \<and> calculate_risks [[''id'' \<mapsto> PyInt 1, ''text'' \<mapsto> PyStr []]] =
       Inr [\<lparr>clause_id = PyInt 1, risk_score = 0, risk_level = ''low'', color = ''#44aa44'',
              risk_factors = [],
              explanation = ''This clause appears to have low-risk elements, but should still be reviewed.''\<rparr>]
   \<and> strip [CHR 0x20, CHR 0x0A] = [] \<and> segment_clauses [CHR 0x20, CHR 0x0A] = []
   \<and> strip ''Pay now.'' \<noteq> [] \<and> 1 \<le> length (segment_clauses ''Pay now.'')"
proof -
  have b1: "strip [] = []" by code_simp
  have b2: "strip [CHR 0x20, CHR 0x0A] = []" by code_simp
  have n: "strip ''Pay now.'' \<noteq> []" by code_simp
  have r: "calculate_risks [[''id'' \<mapsto> PyInt 1, ''text'' \<mapsto> PyStr []]] =
       Inr [\<lparr>clause_id = PyInt 1, risk_score = 0, risk_level = ''low'', color = ''#44aa44'',
              risk_factors = [],
              explanation = ''This clause appears to have low-risk elements, but should still be reviewed.''\<rparr>]"
    by code_simp
  from blank_and_nonblank_input[of "[]"] blank_and_nonblank_input[of "[CHR 0x20, CHR 0x0A]"]
    blank_and_nonblank_input[of "''Pay now.''"] b1 b2 n r
  show ?thesis by simp
qed

subsection \<open>C9: determinism apart from the fallback\<close>

text \<open>
  The random generator is an explicit argument of the analysis. It is read only by
  \<open>_generate_mock_risk_scores\<close>, whose result does depend on it:
\<close>

lemma fallback_depends_on_generator:
  "calculate_risk_scores (\<lambda>n. 0) [[''text'' \<mapsto> PyNone]]
     \<noteq> calculate_risk_scores (\<lambda>n. 1) [[''text'' \<mapsto> PyNone]]"
  by (simp add: calculate_risk_scores_def py_get_def uniform_def mock_level_def)

text \<open>
  C9. Segmentation followed by risk scoring gives the same clauses and the same
  assessments whatever the random generator holds: on the clauses that segmentation
  returns \<open>_calculate_risks\<close> does not raise, so the assessments are its result and the
  random fallback is not used.
\<close>

theorem analysis_independent_of_generator:
  "analyze_document g1 text_in = analyze_document g2 text_in
   \<and> calculate_risks (segment_clauses text_in) = Inr (snd (analyze_document g1 text_in))"
proof -
  from calculate_risks_total[OF segment_clauses_texts] obtain rs where
    "calculate_risks (segment_clauses text_in) = Inr rs" by blast
  then show ?thesis by (simp add: analyze_document_def calculate_risk_scores_def)
qed

subsection \<open>C10: clauses without a pattern match\<close>

text \<open>
  C10, counterexample. The claim: whenever no pattern of a weighted group matches, the
  score is the sum of the additional adjustments. A clause text of 101 spaces matches no
  pattern and has the length bonus \<open>0.05\<close>, but \<open>_analyze_clause_risk\<close> returns
  \<open>0.0\<close> for a blank text before anything is computed.
\<close>

theorem unmatched_blank_counterexample:
  "no_pattern_matches (replicate 101 (CHR '' ''))
   \<and> analyze_clause_risk (replicate 101 (CHR '' '')) = 0
   \<and> calculate_additional_risk_factors (replicate 101 (CHR '' '')) = 1 / 20"
  by code_simp

text \<open>
  C10, as amended. For every clause text in which no pattern of a weighted group matches,
  \<open>total_weight\<close> is \<open>0\<close>; the score is the sum of the additional adjustments alone
  when the text is not blank, and \<open>0\<close> when it is; in both cases the score is at most
  \<open>0.55\<close>, so the level is \<open>medium\<close> or \<open>low\<close>, never \<open>high\<close>.
\<close>

theorem unmatched_clause_never_high:
  assumes "no_pattern_matches clause_text"
  shows "snd (risk_loop risk_patterns clause_text (lower clause_text) 0 0) = 0
    \<and> analyze_clause_risk clause_text =
        (if strip clause_text = [] then 0 else calculate_additional_risk_factors clause_text)
    \<and> analyze_clause_risk clause_text \<le> 0.55
    \<and> fst (level_and_color (analyze_clause_risk clause_text)) \<in> {''medium'', ''low''}"
proof -
  have z: "risk_loop risk_patterns clause_text (lower clause_text) 0 0 = (0, 0)"
    using assms by (rule no_match_totals)
  have a: "0 \<le> calculate_additional_risk_factors clause_text"
          "calculate_additional_risk_factors clause_text \<le> 0.55"
    using additional_bounds[of clause_text] by simp_all
  have eq: "analyze_clause_risk clause_text =
        (if strip clause_text = [] then 0 else calculate_additional_risk_factors clause_text)"
    by (simp add: analyze_clause_risk_def z Let_def)
  have le: "analyze_clause_risk clause_text \<le> 0.55" using eq a by simp
  then have "fst (level_and_color (analyze_clause_risk clause_text)) \<in> {''medium'', ''low''}"
    by (simp add: level_and_color_def)
  with z eq le show ?thesis by simp
qed

text \<open>The amended C10 at a clause that matches no pattern.\<close>

theorem unmatched_clause_never_high_witness:
  "no_pattern_matches ''The tenant shall never, never sublet''
   \<and> analyze_clause_risk ''The tenant shall never, never sublet'' = 1 / 20
   \<and> analyze_clause_risk ''The tenant shall never, never sublet'' \<le> 0.55"
proof -
  have h: "no_pattern_matches ''The tenant shall never, never sublet''" by code_simp
  have s: "strip ''The tenant shall never, never sublet'' \<noteq> []" by code_simp
  have a: "calculate_additional_risk_factors ''The tenant shall never, never sublet'' = 1 / 20"
    by code_simp
  from unmatched_clause_never_high[OF h] h s a show ?thesis by simp
qed

end
